theory Spec2Isabelle
  imports Complex_Main "HOL-Library.Code_Target_Nat"
begin

section \<open>Python strings\<close>

text \<open>
  A Python \<open>str\<close> is a sequence of Unicode code points, and \<open>len\<close>, \<open>in\<close>,
  \<open>replace\<close>, \<open>split\<close> and \<open>lower\<close> all work on code points. A text is therefore a
  list of code points (natural numbers), not a list of bytes. ASCII literals of the source
  are written \<open>ascii ''...''\<close>; Cyrillic literals are spelled out as code points, with
  a transliteration beside them.
\<close>

type_synonym ustr = "nat list"

definition ascii :: "string \<Rightarrow> ustr" where
  "ascii s = map of_char s"

definition NL :: nat where "NL = 10"
definition CR :: nat where "CR = 13"

text \<open>\<open>str.isspace\<close> for one code point: the characters that \<open>strip()\<close> and \<open>split()\<close>
  treat as whitespace.\<close>

definition py_isspace :: "nat \<Rightarrow> bool" where
  "py_isspace c = ((9 \<le> c \<and> c \<le> 13) \<or> (28 \<le> c \<and> c \<le> 32) \<or> c = 133 \<or> c = 160
     \<or> c = 5760 \<or> (8192 \<le> c \<and> c \<le> 8202) \<or> c = 8232 \<or> c = 8233 \<or> c = 8239
     \<or> c = 8287 \<or> c = 12288)"

text \<open>\<open>str.lower\<close>, for the scripts the repository works with (Basic Latin, Latin-1 and
  Cyrillic); every other code point is left as it is.\<close>

definition py_lower_cp :: "nat \<Rightarrow> nat" where
  "py_lower_cp c =
     (if 65 \<le> c \<and> c \<le> 90 then c + 32
      else if 192 \<le> c \<and> c \<le> 222 \<and> c \<noteq> 215 then c + 32
      else if 1024 \<le> c \<and> c \<le> 1039 then c + 80
      else if 1040 \<le> c \<and> c \<le> 1071 then c + 32
      else c)"

definition py_lower :: "ustr \<Rightarrow> ustr" where
  "py_lower s = map py_lower_cp s"

text \<open>\<open>s.strip()\<close>, \<open>s.rstrip(chars)\<close>.\<close>

definition py_strip :: "ustr \<Rightarrow> ustr" where
  "py_strip s = rev (dropWhile py_isspace (rev (dropWhile py_isspace s)))"

definition py_rstrip :: "nat list \<Rightarrow> ustr \<Rightarrow> ustr" where
  "py_rstrip chars s = rev (dropWhile (\<lambda>c. c \<in> set chars) (rev s))"

text \<open>\<open>s.split(sep)\<close> for a one-character separator: empty pieces are kept and the result
  is never the empty list.\<close>

fun split_on :: "nat \<Rightarrow> ustr \<Rightarrow> ustr list" where
  "split_on sep [] = [[]]"
| "split_on sep (c # cs) =
     (if c = sep then [] # split_on sep cs
      else (case split_on sep cs of
              [] \<Rightarrow> [[c]]
            | l # ls \<Rightarrow> (c # l) # ls))"

text \<open>\<open>s.split()\<close>: pieces between runs of whitespace, empty pieces dropped.\<close>

fun py_split_ws_acc :: "ustr \<Rightarrow> ustr \<Rightarrow> ustr list" where
  "py_split_ws_acc cur [] = (if cur = [] then [] else [rev cur])"
| "py_split_ws_acc cur (c # cs) =
     (if py_isspace c
      then (if cur = [] then py_split_ws_acc [] cs else rev cur # py_split_ws_acc [] cs)
      else py_split_ws_acc (c # cur) cs)"

definition py_split_ws :: "ustr \<Rightarrow> ustr list" where
  "py_split_ws s = py_split_ws_acc [] s"

text \<open>\<open>sep.join(xs)\<close>.\<close>

fun py_join :: "ustr \<Rightarrow> ustr list \<Rightarrow> ustr" where
  "py_join sep [] = []"
| "py_join sep [x] = x"
| "py_join sep (x # y # ys) = x @ sep @ py_join sep (y # ys)"

text \<open>\<open>needle in hay\<close> on strings: \<open>needle\<close> occurs as a contiguous piece of \<open>hay\<close>.\<close>

fun starts_with :: "ustr \<Rightarrow> ustr \<Rightarrow> bool" where
  "starts_with [] s = True"
| "starts_with (p # ps) [] = False"
| "starts_with (p # ps) (c # cs) = (p = c \<and> starts_with ps cs)"

fun py_in :: "ustr \<Rightarrow> ustr \<Rightarrow> bool" where
  "py_in needle [] = (needle = [])"
| "py_in needle (c # cs) = (starts_with needle (c # cs) \<or> py_in needle cs)"

text \<open>\<open>s.replace(old, new)\<close>: the occurrences of \<open>old\<close> are replaced from left to right
  without overlap; an empty \<open>old\<close> puts \<open>new\<close> before every character and at the end.\<close>

fun replace_nonempty :: "ustr \<Rightarrow> ustr \<Rightarrow> nat \<Rightarrow> ustr \<Rightarrow> ustr" where
  "replace_nonempty old new skip [] = []"
| "replace_nonempty old new (Suc k) (c # cs) = replace_nonempty old new k cs"
| "replace_nonempty old new 0 (c # cs) =
     (if starts_with old (c # cs)
      then new @ replace_nonempty old new (length old - 1) cs
      else c # replace_nonempty old new 0 cs)"

definition py_replace :: "ustr \<Rightarrow> ustr \<Rightarrow> ustr \<Rightarrow> ustr" where
  "py_replace s old new =
     (if old = [] then new @ concat (map (\<lambda>c. c # new) s)
      else replace_nonempty old new 0 s)"

text \<open>\<open>s.count(sub)\<close> and the start positions of \<open>re.finditer(re.escape(sub), s)\<close>:
  occurrences from left to right without overlap; the empty pattern matches at every
  position, the end included.\<close>

fun find_all_from :: "(ustr \<Rightarrow> ustr) \<Rightarrow> ustr \<Rightarrow> nat \<Rightarrow> nat \<Rightarrow> ustr \<Rightarrow> nat list" where
  "find_all_from cf pat pos skip [] = (if pat = [] \<and> skip = 0 then [pos] else [])"
| "find_all_from cf pat pos (Suc k) (c # cs) = find_all_from cf pat (Suc pos) k cs"
| "find_all_from cf pat pos 0 (c # cs) =
     (if starts_with (cf pat) (cf (c # cs))
      then pos # find_all_from cf pat (Suc pos) (length pat - 1) cs
      else find_all_from cf pat (Suc pos) 0 cs)"

definition find_all :: "ustr \<Rightarrow> ustr \<Rightarrow> nat list" where
  "find_all pat s = find_all_from (\<lambda>x. x) pat 0 0 s"

definition find_all_ignorecase :: "ustr \<Rightarrow> ustr \<Rightarrow> nat list" where
  "find_all_ignorecase pat s = find_all_from py_lower pat 0 0 s"

definition py_count :: "ustr \<Rightarrow> ustr \<Rightarrow> nat" where
  "py_count s sub = length (find_all sub s)"

text \<open>\<open>re.search\<close> of the three delimiter patterns \<open>"[^"]*"\<close>, \<open>\<guillemotleft>[^\<guillemotright>]*\<guillemotright>\<close> and the dash
  pair: the pattern \<open>o[^c]*c\<close> is found exactly when some \<open>o\<close> is followed, later in the
  text, by a \<open>c\<close>; the first \<open>o\<close> then serves.\<close>

definition re_search_delim :: "nat \<Rightarrow> nat \<Rightarrow> ustr \<Rightarrow> bool" where
  "re_search_delim opening closing s =
     (closing \<in> set (tl (dropWhile (\<lambda>c. c \<noteq> opening) s)))"

text \<open>\<open>re.search(lit + '.*', s)\<close> finds the pattern exactly when \<open>lit\<close> occurs in \<open>s\<close>;
  with \<open>re.IGNORECASE\<close> both sides are compared in lower case.\<close>

definition re_search_lit :: "ustr \<Rightarrow> ustr \<Rightarrow> bool" where
  "re_search_lit lit s = py_in lit s"

definition re_search_lit_ignorecase :: "ustr \<Rightarrow> ustr \<Rightarrow> bool" where
  "re_search_lit_ignorecase lit s = py_in (py_lower lit) (py_lower s)"

section \<open>chapter\_splitter.py\<close>

datatype segment_type = Empty_line | Dialogue | System | Description

record TextSegment =
  content :: ustr
  segment_type :: segment_type
  line_number :: nat
  character :: "ustr option"
  is_dialogue :: bool
  is_system :: bool

text \<open>The pattern tables of \<open>ChapterSplitter.__init__\<close>.\<close>

definition dialogue_patterns :: "(nat \<times> nat) list" where
  "dialogue_patterns = [(34, 34), (171, 187), (8212, 8212)]"

definition s_Din :: ustr where \<comment> \<open>Din'!\<close>
  "s_Din = [1044, 1080, 1085, 1100, 33]"
definition s_Sistema :: ustr where \<comment> \<open>Sistema\<close>
  "s_Sistema = [1057, 1080, 1089, 1090, 1077, 1084, 1072]"
definition s_Opoveshchenie :: ustr where \<comment> \<open>Opoveshchenie\<close>
  "s_Opoveshchenie = [1054, 1087, 1086, 1074, 1077, 1097, 1077, 1085, 1080, 1077]"
definition s_Polucheno :: ustr where \<comment> \<open>Polucheno\<close>
  "s_Polucheno = [1055, 1086, 1083, 1091, 1095, 1077, 1085, 1086]"
definition s_Nagrada :: ustr where \<comment> \<open>Nagrada\<close>
  "s_Nagrada = [1053, 1072, 1075, 1088, 1072, 1076, 1072]"

definition s_Czyan_Chen :: ustr where \<comment> \<open>Czyan Chen' (Jiang Chen)\<close>
  "s_Czyan_Chen = [1062, 1079, 1103, 1085, 32, 1063, 1101, 1085, 1100]"
definition s_E_Cinchen :: ustr where \<comment> \<open>E Cinchen (Ye Qingcheng)\<close>
  "s_E_Cinchen = [1045, 32, 1062, 1080, 1085, 1095, 1101, 1085]"
definition s_Du_Guyun :: ustr where \<comment> \<open>Du Guyun'\<close>
  "s_Du_Guyun = [1044, 1091, 32, 1043, 1091, 1102, 1085, 1100]"
definition s_Starejshina :: ustr where \<comment> \<open>Starejshina (Elder)\<close>
  "s_Starejshina = [1057, 1090, 1072, 1088, 1077, 1081, 1096, 1080, 1085, 1072]"

definition splitter_system_patterns :: "ustr list" where
  "splitter_system_patterns = [s_Din, s_Sistema, s_Opoveshchenie, s_Polucheno, s_Nagrada]"

definition character_indicators :: "ustr list" where
  "character_indicators =
     [s_Czyan_Chen, ascii ''Jiang Chen'', s_E_Cinchen, ascii ''Ye Qingcheng'',
      s_Du_Guyun, ascii ''Du Guyun'', s_Starejshina, ascii ''Elder'']"

definition splitter_is_dialogue :: "ustr \<Rightarrow> bool" where
  "splitter_is_dialogue line = list_ex (\<lambda>(opening, closing). re_search_delim opening closing line) dialogue_patterns"

definition splitter_is_system :: "ustr \<Rightarrow> bool" where
  "splitter_is_system line = list_ex (\<lambda>pattern. re_search_lit pattern line) splitter_system_patterns"

definition detect_segment_type :: "ustr \<Rightarrow> segment_type" where
  "detect_segment_type line =
     (if py_strip line = [] then Empty_line
      else if splitter_is_dialogue line then Dialogue
      else if splitter_is_system line then System
      else Description)"

definition detect_character :: "ustr \<Rightarrow> ustr option" where
  "detect_character line = find (\<lambda>indicator. py_in indicator line) character_indicators"

text \<open>The body of the loop of \<open>split_by_lines\<close>, for the line numbered \<open>i\<close>.\<close>

definition line_segment :: "nat \<Rightarrow> ustr \<Rightarrow> TextSegment" where
  "line_segment i original_line =
     (let line = py_rstrip [CR] original_line in
      if py_strip line = [] \<or> line = [NL]
      then \<lparr>content = [], segment_type = Empty_line, line_number = i,
            character = None, is_dialogue = False, is_system = False\<rparr>
      else \<lparr>content = line, segment_type = detect_segment_type line, line_number = i,
            character = detect_character line,
            is_dialogue = splitter_is_dialogue line, is_system = splitter_is_system line\<rparr>)"

fun segments_from :: "nat \<Rightarrow> ustr list \<Rightarrow> TextSegment list" where
  "segments_from i [] = []"
| "segments_from i (line # lines) = line_segment i line # segments_from (Suc i) lines"

definition split_by_lines :: "ustr \<Rightarrow> TextSegment list" where
  "split_by_lines text = segments_from 1 (split_on NL text)"

text \<open>Reassembly as the specification words it: segments in source order, an empty-line
  segment as a blank line and any other segment as its content, one per line. It is the
  \<open>'\n'.join\<close> by which \<open>translate_file\<close> puts a chapter together again.\<close>

definition reassemble :: "TextSegment list \<Rightarrow> ustr" where
  "reassemble segments =
     py_join [NL] (map (\<lambda>s. if segment_type s = Empty_line then [] else content s) segments)"

section \<open>character\_detector.py\<close>

datatype CharacterType = JIANG_CHEN | YE_QINGCHENG | DU_GUYUN | ELDER | SYSTEM | NARRATOR | UNKNOWN

text \<open>The values of the enumeration, as the translator passes them on.\<close>

fun CharacterType_value :: "CharacterType \<Rightarrow> ustr" where
  "CharacterType_value JIANG_CHEN = ascii ''Jiang_Chen''"
| "CharacterType_value YE_QINGCHENG = ascii ''Ye_Qingcheng''"
| "CharacterType_value DU_GUYUN = ascii ''Du_Guyun''"
| "CharacterType_value ELDER = ascii ''Elder''"
| "CharacterType_value SYSTEM = ascii ''System''"
| "CharacterType_value NARRATOR = ascii ''Narrator''"
| "CharacterType_value UNKNOWN = ascii ''Unknown''"

record CharacterProfile =
  profile_name :: ustr
  character_type :: CharacterType
  speech_patterns :: "ustr list"
  thought_patterns :: "ustr list"
  profile_keywords :: "ustr list"
  style_preferences :: "(ustr \<times> ustr) list"
  avoid_words :: "ustr list"
  prefer_words :: "ustr list"

text \<open>\<open>character_profiles\<close> is a dictionary from character types to profiles, read from
  \<open>character_voices.json\<close>; the loops go through it in insertion order, so it is an
  association list.\<close>

type_synonym character_profiles = "(CharacterType \<times> CharacterProfile) list"

definition s_czyan_chen :: ustr where \<comment> \<open>czyan chen\<close>
  "s_czyan_chen = [1094, 1079, 1103, 1085, 32, 1095, 1101, 1085, 1100]"
definition s_e_cinchen :: ustr where \<comment> \<open>e cinchen\<close>
  "s_e_cinchen = [1077, 32, 1094, 1080, 1085, 1095, 1101, 1085]"
definition s_du_guyun :: ustr where \<comment> \<open>du guyun\<close>
  "s_du_guyun = [1076, 1091, 32, 1075, 1091, 1102, 1085, 1100]"
definition s_starejshina :: ustr where \<comment> \<open>starejshina\<close>
  "s_starejshina = [1089, 1090, 1072, 1088, 1077, 1081, 1096, 1080, 1085, 1072]"
definition s_Daj_mne :: ustr where \<comment> \<open>Daj mne\<close>
  "s_Daj_mne = [1044, 1072, 1081, 32, 1084, 1085, 1077]"
definition s_Mozhesh :: ustr where \<comment> \<open>Mozhesh\<close>
  "s_Mozhesh = [1052, 1086, 1078, 1077, 1096, 1100]"
definition s_Hochu :: ustr where \<comment> \<open>Hochu\<close>
  "s_Hochu = [1061, 1086, 1095, 1091]"
definition s_Seryozno :: ustr where \<comment> \<open>Seryozno?\<close>
  "s_Seryozno = [1057, 1077, 1088, 1100, 1105, 1079, 1085, 1086, 63]"
definition s_Blin :: ustr where \<comment> \<open>Blin\<close>
  "s_Blin = [1041, 1083, 1080, 1085]"
definition s_Da_nu_nafig :: ustr where \<comment> \<open>Da nu nafig\<close>
  "s_Da_nu_nafig = [1044, 1072, 32, 1085, 1091, 32, 1085, 1072, 1092, 1080, 1075]"
definition s_bezdele :: ustr where \<comment> \<open>bezdele\<close>
  "s_bezdele = [1073, 1077, 1079, 1076, 1077, 1083, 1100, 1077]"
definition s_sistema :: ustr where \<comment> \<open>sistema\<close>
  "s_sistema = [1089, 1080, 1089, 1090, 1077, 1084, 1072]"
definition s_nagrada :: ustr where \<comment> \<open>nagrada\<close>
  "s_nagrada = [1085, 1072, 1075, 1088, 1072, 1076, 1072]"
definition s_sej :: ustr where \<comment> \<open>sej\<close>
  "s_sej = [1089, 1077, 1081]"
definition s_daby :: ustr where \<comment> \<open>daby\<close>
  "s_daby = [1076, 1072, 1073, 1099]"
definition s_ibo :: ustr where \<comment> \<open>ibo\<close>
  "s_ibo = [1080, 1073, 1086]"
definition s_vesma :: ustr where \<comment> \<open>vesma\<close>
  "s_vesma = [1074, 1077, 1089, 1100, 1084, 1072]"
definition s_kruto :: ustr where \<comment> \<open>kruto\<close>
  "s_kruto = [1082, 1088, 1091, 1090, 1086]"
definition s_realno :: ustr where \<comment> \<open>realno\<close>
  "s_realno = [1088, 1077, 1072, 1083, 1100, 1085, 1086]"
definition s_moshchnyj :: ustr where \<comment> \<open>moshchnyj\<close>
  "s_moshchnyj = [1084, 1086, 1097, 1085, 1099, 1081]"
definition s_Pozvolte :: ustr where \<comment> \<open>Pozvolte\<close>
  "s_Pozvolte = [1055, 1086, 1079, 1074, 1086, 1083, 1100, 1090, 1077]"
definition s_Ne_mogli_by_vy :: ustr where \<comment> \<open>Ne mogli by vy\<close>
  "s_Ne_mogli_by_vy = [1053, 1077, 32, 1084, 1086, 1075, 1083, 1080, 32, 1073, 1099, 32, 1074, 1099]"
definition s_Ya_hotela_by :: ustr where \<comment> \<open>Ya hotela by\<close>
  "s_Ya_hotela_by = [1071, 32, 1093, 1086, 1090, 1077, 1083, 1072, 32, 1073, 1099]"
definition s_Neuzheli :: ustr where \<comment> \<open>Neuzheli\<close>
  "s_Neuzheli = [1053, 1077, 1091, 1078, 1077, 1083, 1080]"
definition s_Dolzhna_li_ya :: ustr where \<comment> \<open>Dolzhna li ya\<close>
  "s_Dolzhna_li_ya = [1044, 1086, 1083, 1078, 1085, 1072, 32, 1083, 1080, 32, 1103]"
definition s_elegantnost :: ustr where \<comment> \<open>elegantnost\<close>
  "s_elegantnost = [1101, 1083, 1077, 1075, 1072, 1085, 1090, 1085, 1086, 1089, 1090, 1100]"
definition s_krasota :: ustr where \<comment> \<open>krasota\<close>
  "s_krasota = [1082, 1088, 1072, 1089, 1086, 1090, 1072]"
definition s_dostoinstvo :: ustr where \<comment> \<open>dostoinstvo\<close>
  "s_dostoinstvo = [1076, 1086, 1089, 1090, 1086, 1080, 1085, 1089, 1090, 1074, 1086]"
definition s_dejstvitelno :: ustr where \<comment> \<open>dejstvitelno\<close>
  "s_dejstvitelno = [1076, 1077, 1081, 1089, 1090, 1074, 1080, 1090, 1077, 1083, 1100, 1085, 1086]"
definition s_ochen :: ustr where \<comment> \<open>ochen\<close>
  "s_ochen = [1086, 1095, 1077, 1085, 1100]"
definition s_prekrasno :: ustr where \<comment> \<open>prekrasno\<close>
  "s_prekrasno = [1087, 1088, 1077, 1082, 1088, 1072, 1089, 1085, 1086]"
definition s_uvedomlenie :: ustr where \<comment> \<open>uvedomlenie\<close>
  "s_uvedomlenie = [1091, 1074, 1077, 1076, 1086, 1084, 1083, 1077, 1085, 1080, 1077]"
definition s_Nagrada_poluchena :: ustr where \<comment> \<open>Nagrada poluchena!\<close>
  "s_Nagrada_poluchena = [1053, 1072, 1075, 1088, 1072, 1076, 1072, 32, 1087, 1086, 1083, 1091, 1095, 1077, 1085, 1072, 33]"

text \<open>\<open>name_patterns\<close>, in the order of the dictionary literal.\<close>

definition name_patterns :: "(ustr \<times> CharacterType) list" where
  "name_patterns =
     [(s_Czyan_Chen, JIANG_CHEN), (ascii ''Jiang Chen'', JIANG_CHEN),
      (s_czyan_chen, JIANG_CHEN), (ascii ''jiang chen'', JIANG_CHEN),
      (s_E_Cinchen, YE_QINGCHENG), (ascii ''Ye Qingcheng'', YE_QINGCHENG),
      (s_e_cinchen, YE_QINGCHENG), (ascii ''ye qingcheng'', YE_QINGCHENG),
      (s_Du_Guyun, DU_GUYUN), (ascii ''Du Guyun'', DU_GUYUN),
      (s_du_guyun, DU_GUYUN), (ascii ''du guyun'', DU_GUYUN),
      (s_Starejshina, ELDER), (ascii ''Elder'', ELDER),
      (s_starejshina, ELDER), (ascii ''elder'', ELDER)]"

definition detector_system_patterns :: "ustr list" where
  "detector_system_patterns =
     [s_Din, s_Sistema, s_Opoveshchenie, s_Polucheno, s_Nagrada,
      ascii ''System'', ascii ''Notification'']"

text \<open>\<open>_create_default_profiles\<close>: the profiles used when the profile file cannot be
  read.\<close>

definition default_profiles :: character_profiles where
  "default_profiles =
     [(JIANG_CHEN,
       \<lparr>profile_name = s_Czyan_Chen, character_type = JIANG_CHEN,
        speech_patterns = [s_Daj_mne, s_Mozhesh, s_Hochu],
        thought_patterns = [s_Seryozno, s_Blin, s_Da_nu_nafig],
        profile_keywords = [s_bezdele, s_sistema, s_nagrada],
        style_preferences = [(ascii ''style'', ascii ''modern_casual'')],
        avoid_words = [s_sej, s_daby, s_ibo, s_vesma],
        prefer_words = [s_kruto, s_realno, s_moshchnyj]\<rparr>),
      (YE_QINGCHENG,
       \<lparr>profile_name = s_E_Cinchen, character_type = YE_QINGCHENG,
        speech_patterns = [s_Pozvolte, s_Ne_mogli_by_vy, s_Ya_hotela_by],
        thought_patterns = [s_Neuzheli, s_Dolzhna_li_ya],
        profile_keywords = [s_elegantnost, s_krasota, s_dostoinstvo],
        style_preferences = [(ascii ''style'', ascii ''elegant_modern'')],
        avoid_words = [s_sej, s_daby, s_ibo, s_vesma],
        prefer_words = [s_dejstvitelno, s_ochen, s_prekrasno]\<rparr>),
      (SYSTEM,
       \<lparr>profile_name = s_Sistema, character_type = SYSTEM,
        speech_patterns = [s_Din, s_Polucheno, s_Nagrada],
        thought_patterns = [],
        profile_keywords = [s_sistema, s_nagrada, s_uvedomlenie],
        style_preferences = [(ascii ''style'', ascii ''game_like'')],
        avoid_words = [],
        prefer_words = [s_Din, s_Nagrada_poluchena]\<rparr>)]"

text \<open>The score of one profile in \<open>_analyze_speech_style\<close>: the three inner loops, in
  the order of the source. The source adds the floating-point constants 0.2, 0.1 and
  0.3; the model adds the exact fractions.\<close>

definition speech_style_score :: "CharacterProfile \<Rightarrow> ustr \<Rightarrow> rat" where
  "speech_style_score profile text =
     (let score = 0;
          score = fold (\<lambda>word score.
                    if py_in (py_lower word) (py_lower text) then score + 2 / 10 else score)
                    (prefer_words profile) score;
          score = fold (\<lambda>word score.
                    if py_in (py_lower word) (py_lower text) then score - 1 / 10 else score)
                    (avoid_words profile) score;
          score = fold (\<lambda>pattern score.
                    if py_in (py_lower pattern) (py_lower text) then score + 3 / 10 else score)
                    (speech_patterns profile) score
      in score)"

text \<open>The outer loop keeps \<open>(best_match, best_score)\<close>, starting from \<open>(None, 0.0)\<close>.\<close>

definition analyze_speech_style :: "character_profiles \<Rightarrow> ustr \<Rightarrow> (CharacterType \<times> rat) option" where
  "analyze_speech_style profiles text =
     (let (best_match, best_score) =
            fold (\<lambda>(char_type, profile) (best_match, best_score).
                    let score = speech_style_score profile text in
                    if score > best_score then (Some char_type, score)
                    else (best_match, best_score))
                 profiles (None, 0)
      in case best_match of
           Some char_type \<Rightarrow> if best_score > 3 / 10 then Some (char_type, best_score) else None
         | None \<Rightarrow> None)"

definition keyword_score :: "CharacterProfile \<Rightarrow> ustr \<Rightarrow> nat" where
  "keyword_score profile text_lower =
     fold (\<lambda>keyword score. if py_in (py_lower keyword) text_lower then score + 1 else score)
          (profile_keywords profile) 0"

text \<open>\<open>max(keyword_scores, key=keyword_scores.get)\<close> is the first key with the greatest
  score.\<close>

fun first_max :: "('a \<times> nat) list \<Rightarrow> ('a \<times> nat) option" where
  "first_max [] = None"
| "first_max (x # xs) =
     (case first_max xs of
        None \<Rightarrow> Some x
      | Some y \<Rightarrow> if snd y > snd x then Some y else Some x)"

definition analyze_keywords :: "character_profiles \<Rightarrow> ustr \<Rightarrow> (CharacterType \<times> rat) option" where
  "analyze_keywords profiles text =
     (let text_lower = py_lower text;
          keyword_scores = map (\<lambda>(char_type, profile). (char_type, keyword_score profile text_lower)) profiles
      in case first_max keyword_scores of
           None \<Rightarrow> None
         | Some (best_type, best_score) \<Rightarrow>
             if best_score > 0 then Some (best_type, min (8 / 10) (of_nat best_score * (2 / 10)))
             else None)"

definition detect_character_from_text :: "character_profiles \<Rightarrow> ustr \<Rightarrow> CharacterType \<times> rat" where
  "detect_character_from_text profiles text =
     (case find (\<lambda>(alias, char_type). py_in alias text) name_patterns of
        Some (alias, char_type) \<Rightarrow> (char_type, 1)
      | None \<Rightarrow>
          if list_ex (\<lambda>pattern. re_search_lit_ignorecase pattern text) detector_system_patterns
          then (SYSTEM, 9 / 10)
          else (case analyze_speech_style profiles text of
                  Some style_analysis \<Rightarrow> style_analysis
                | None \<Rightarrow>
                    (case analyze_keywords profiles text of
                       Some keyword_analysis \<Rightarrow> keyword_analysis
                     | None \<Rightarrow> (UNKNOWN, 0))))"

definition get_character_avoid_words :: "character_profiles \<Rightarrow> CharacterType \<Rightarrow> ustr list" where
  "get_character_avoid_words profiles char_type =
     (case map_of profiles char_type of
        Some profile \<Rightarrow> avoid_words profile
      | None \<Rightarrow> [])"

definition get_character_prefer_words :: "character_profiles \<Rightarrow> CharacterType \<Rightarrow> ustr list" where
  "get_character_prefer_words profiles char_type =
     (case map_of profiles char_type of
        Some profile \<Rightarrow> prefer_words profile
      | None \<Rightarrow> [])"

text \<open>A line that names none of the characters and carries no system marker, but
  holds all three speech patterns and all three preferred words of the first default
  profile: \<open>Daj mne Mozhesh Hochu kruto realno moshchnyj\<close>.\<close>

definition speech_style_text :: ustr where
  "speech_style_text =
     s_Daj_mne @ [32] @ s_Mozhesh @ [32] @ s_Hochu @ [32] @ s_kruto @ [32] @ s_realno @ [32] @ s_moshchnyj"

section \<open>context\_manager.py\<close>

text \<open>
  The manager keeps its records either in a ChromaDB collection or, when that library is
  missing or fails, in the JSON file \<open>translation_memory.json\<close>. ChromaDB is not part of
  the repository; the model is the file backend, whose code is. The file holds a JSON list,
  which every operation reads whole and writes back whole: the state is that list. Reading
  and writing the file are taken to succeed. The fields \<open>chapter\<close>, \<open>character\<close>,
  \<open>context\<close> and \<open>quality_score\<close> of the source carry the prefix \<open>tm_\<close> here
  (\<open>context\<close> is \<open>tm_scene\<close>), and the time stamp, which is the wall clock of the
  insertion, is left out.
\<close>

record TranslationMemory =
  source_text :: ustr
  target_text :: ustr
  tm_chapter :: ustr
  tm_character :: "ustr option"
  tm_scene :: "ustr option"
  tm_quality_score :: "int option"

text \<open>An entry of the file: the fields of the record and its identifier.\<close>

record translation_data = TranslationMemory +
  memory_id :: ustr

text \<open>The identifier is the MD5 digest of \<open>source_text_chapter\<close>. The digest is not
  modelled: an identifier is the string that is hashed, so two identifiers are equal
  exactly when the hashed strings are.\<close>

definition memory_id_of :: "'a TranslationMemory_scheme \<Rightarrow> ustr" where
  "memory_id_of memory = source_text memory @ ascii ''_'' @ tm_chapter memory"

definition add_to_file_system :: "translation_data list \<Rightarrow> TranslationMemory \<Rightarrow> ustr \<times> translation_data list" where
  "add_to_file_system data memory =
     (let mid = memory_id_of memory;
          entry = \<lparr>source_text = source_text memory, target_text = target_text memory,
                   tm_chapter = tm_chapter memory, tm_character = tm_character memory,
                   tm_scene = tm_scene memory, tm_quality_score = tm_quality_score memory,
                   memory_id = mid\<rparr>
      in (mid, data @ [entry]))"

definition add_translation :: "translation_data list \<Rightarrow> TranslationMemory \<Rightarrow> ustr \<times> translation_data list" where
  "add_translation data memory = add_to_file_system data memory"

text \<open>The dictionaries that \<open>find_similar\<close> returns.\<close>

record SimilarTranslation =
  sim_source_text :: ustr
  sim_target_text :: ustr
  sim_chapter :: ustr
  sim_character :: "ustr option"
  similarity :: rat
  sim_scene :: "ustr option"

text \<open>\<open>set(text.lower().split())\<close>.\<close>

definition word_set :: "ustr \<Rightarrow> ustr set" where
  "word_set text = set (py_split_ws (py_lower text))"

text \<open>The similarity that the loop of \<open>_find_similar_file_system\<close> gives to a pair of
  texts: none when either set of words is empty, else the quotient of the sizes of the
  intersection and of the union.\<close>

definition word_similarity :: "ustr \<Rightarrow> ustr \<Rightarrow> rat option" where
  "word_similarity text item_text =
     (let source_words = word_set text; item_words = word_set item_text in
      if source_words \<noteq> {} \<and> item_words \<noteq> {}
      then Some (of_nat (card (source_words \<inter> item_words)) / of_nat (card (source_words \<union> item_words)))
      else None)"

definition similar_entries :: "ustr \<Rightarrow> rat \<Rightarrow> translation_data list \<Rightarrow> SimilarTranslation list" where
  "similar_entries text threshold data =
     concat (map (\<lambda>item.
       case word_similarity text (source_text item) of
         None \<Rightarrow> []
       | Some sim \<Rightarrow>
           if sim \<ge> threshold
           then [\<lparr>sim_source_text = source_text item, sim_target_text = target_text item,
                  sim_chapter = tm_chapter item, sim_character = tm_character item,
                  similarity = sim, sim_scene = tm_scene item\<rparr>]
           else []) data)"

text \<open>\<open>xs[:n]\<close> for an integer \<open>n\<close>: a negative \<open>n\<close> counts from the end.\<close>

definition py_slice_to :: "int \<Rightarrow> 'a list \<Rightarrow> 'a list" where
  "py_slice_to n xs = (if n < 0 then take (nat (int (length xs) + n)) xs else take (nat n) xs)"

text \<open>\<open>sort(key=..., reverse=True)\<close> is stable: entries of equal similarity keep their
  order.\<close>

definition find_similar_file_system :: "translation_data list \<Rightarrow> ustr \<Rightarrow> rat \<Rightarrow> int \<Rightarrow> SimilarTranslation list" where
  "find_similar_file_system data text threshold max_results =
     py_slice_to max_results (sort_key (\<lambda>x. - similarity x) (similar_entries text threshold data))"

definition find_similar :: "translation_data list \<Rightarrow> ustr \<Rightarrow> rat \<Rightarrow> int \<Rightarrow> SimilarTranslation list" where
  "find_similar data text threshold max_results = find_similar_file_system data text threshold max_results"

text \<open>The reference base, loaded from JSON: each section may be missing. The JSON
  dictionaries are association lists in the order of the file.\<close>

record TranslationErrors =
  forbidden_words :: "ustr list option"
  preferred_alternatives :: "(ustr \<times> ustr) list option"

record StyleRule =
  examples :: "(ustr \<times> ustr) list option"

record ReferenceData =
  phrase_translations :: "(ustr \<times> (ustr \<times> ustr) list) list option"
  glossary_terms :: "(ustr \<times> (ustr \<times> ustr) list) list option"
  translation_errors :: "TranslationErrors option"
  contextual_style_rules :: "(ustr \<times> StyleRule) list option"

definition get_phrase_translation :: "ReferenceData \<Rightarrow> ustr \<Rightarrow> ustr \<Rightarrow> ustr option" where
  "get_phrase_translation reference_data text chapter_name =
     (case phrase_translations reference_data of
        None \<Rightarrow> None
      | Some sections \<Rightarrow>
          (case find (\<lambda>(chapter_key, phrases). map_of phrases text \<noteq> None) sections of
             Some (chapter_key, phrases) \<Rightarrow> map_of phrases text
           | None \<Rightarrow>
               (case find (\<lambda>(phrase, translation).
                             py_in (py_lower text) (py_lower phrase) \<or> py_in (py_lower phrase) (py_lower text))
                          (concat (map snd sections)) of
                  Some (phrase, translation) \<Rightarrow> Some translation
                | None \<Rightarrow> None)))"

definition get_forbidden_words :: "ReferenceData \<Rightarrow> ustr list" where
  "get_forbidden_words reference_data =
     (case translation_errors reference_data of
        None \<Rightarrow> []
      | Some errors \<Rightarrow> (case forbidden_words errors of None \<Rightarrow> [] | Some ws \<Rightarrow> ws))"

definition get_character_style :: "ReferenceData \<Rightarrow> ustr \<Rightarrow> StyleRule option" where
  "get_character_style reference_data character_name =
     (case contextual_style_rules reference_data of
        None \<Rightarrow> None
      | Some style_rules \<Rightarrow> map_of style_rules (character_name @ ascii ''_thoughts''))"

section \<open>Line splitting and reassembly\<close>

lemma split_on_not_Nil: "split_on sep s \<noteq> []"
  by (induction s) (auto split: list.splits)

lemma join_split_on: "py_join [sep] (split_on sep s) = s"
proof (induction s)
  case Nil
  show ?case by simp
next
  case (Cons c cs)
  obtain l ls where spl: "split_on sep cs = l # ls"
    using split_on_not_Nil [of sep cs] by (cases "split_on sep cs") auto
  with Cons show ?case
    by (cases ls) auto
qed


lemma split_on_no_sep: "l \<in> set (split_on sep s) \<Longrightarrow> sep \<notin> set l"
proof (induction s arbitrary: l)
  case Nil
  then show ?case by simp
next
  case (Cons c cs)
  obtain k ks where spl: "split_on sep cs = k # ks"
    using split_on_not_Nil [of sep cs] by (cases "split_on sep cs") auto
  show ?case
  proof (cases "c = sep")
    case True
    with Cons show ?thesis by auto
  next
    case False
    with Cons.prems spl have "l = c # k \<or> l \<in> set ks" by auto
    then show ?thesis
      using Cons.IH spl False by auto
  qed
qed

lemma split_on_single: "sep \<notin> set x \<Longrightarrow> split_on sep x = [x]"
  by (induction x) auto

lemma split_on_append: "sep \<notin> set x \<Longrightarrow> split_on sep (x @ sep # r) = x # split_on sep r"
  by (induction x) auto

lemma split_on_join:
  "xs \<noteq> [] \<Longrightarrow> \<forall>x\<in>set xs. sep \<notin> set x \<Longrightarrow> split_on sep (py_join [sep] xs) = xs"
proof (induction xs rule: induct_list012)
  case 1
  then show ?case by simp
next
  case (2 x)
  then show ?case by (simp add: split_on_single)
next
  case (3 x y ys)
  then show ?case by (simp add: split_on_append)
qed

lemma py_strip_Nil_iff: "py_strip s = [] \<longleftrightarrow> list_all py_isspace s"
proof
  assume a: "py_strip s = []"
  show "list_all py_isspace s"
  proof (cases "dropWhile py_isspace s = []")
    case True
    then show ?thesis by (simp add: list_all_iff)
  next
    case False
    then have "\<not> py_isspace (hd (dropWhile py_isspace s))"
      by (rule hd_dropWhile)
    moreover from a have "\<forall>x\<in>set (dropWhile py_isspace s). py_isspace x"
      by (simp add: py_strip_def)
    ultimately show ?thesis using False by (metis list.set_sel(1))
  qed
next
  assume "list_all py_isspace s"
  then have "dropWhile py_isspace s = []" by (simp add: list_all_iff)
  then show "py_strip s = []" by (simp add: py_strip_def del: dropWhile_eq_Nil_conv)
qed

lemma isspace_CR: "py_isspace CR" by (simp add: py_isspace_def CR_def)
lemma isspace_NL: "py_isspace NL" by (simp add: py_isspace_def NL_def)

lemma py_rstrip_subset: "set (py_rstrip cs s) \<subseteq> set s"
  using set_dropWhileD[of _ "\<lambda>c. c \<in> set cs" "rev s"] by (auto simp: py_rstrip_def)

lemma allspace_rstrip_CR: "list_all py_isspace (py_rstrip [CR] s) \<longleftrightarrow> list_all py_isspace s"
proof (induction s rule: rev_induct)
  case Nil
  then show ?case by (simp add: py_rstrip_def)
next
  case (snoc x xs)
  then show ?case by (auto simp: py_rstrip_def isspace_CR)
qed

lemma py_rstrip_id_iff: "py_rstrip [c] s = s \<longleftrightarrow> (s = [] \<or> last s \<noteq> c)"
proof (cases s rule: rev_cases)
  case Nil
  then show ?thesis by (simp add: py_rstrip_def)
next
  case (snoc xs x)
  have "length (dropWhile (\<lambda>a. a = c) (rev xs)) \<le> length xs"
    using length_dropWhile_le[of "\<lambda>a. a = c" "rev xs"] by simp
  then have "length (rev (dropWhile (\<lambda>a. a = c) (rev xs))) \<noteq> length (xs @ [c])"
    by simp
  then have "rev (dropWhile (\<lambda>a. a = c) (rev xs)) \<noteq> xs @ [c]"
    by (auto dest: arg_cong[where f = length])
  with snoc show ?thesis by (auto simp: py_rstrip_def)
qed



lemma line_segment_emitted:
  "(if segment_type (line_segment i l) = Empty_line then [] else content (line_segment i l))
     = (if list_all py_isspace l then [] else py_rstrip [CR] l)"
proof (cases "list_all py_isspace l")
  case True
  then have "py_strip (py_rstrip [CR] l) = []"
    by (simp add: py_strip_Nil_iff allspace_rstrip_CR)
  with True show ?thesis by (simp add: line_segment_def Let_def)
next
  case False
  then have ns: "py_strip (py_rstrip [CR] l) \<noteq> []"
    by (simp add: py_strip_Nil_iff allspace_rstrip_CR)
  then have "py_rstrip [CR] l \<noteq> [NL]"
    using isspace_NL by (auto simp: py_strip_Nil_iff)
  with ns False show ?thesis
    by (simp add: line_segment_def detect_segment_type_def Let_def)
qed

lemma segments_from_emitted:
  "map (\<lambda>s. if segment_type s = Empty_line then [] else content s) (segments_from i ls)
     = map (\<lambda>l. if list_all py_isspace l then [] else py_rstrip [CR] l) ls"
  by (induction ls arbitrary: i) (simp_all add: line_segment_emitted)

lemma reassemble_split_by_lines:
  "reassemble (split_by_lines T)
     = py_join [NL] (map (\<lambda>l. if list_all py_isspace l then [] else py_rstrip [CR] l) (split_on NL T))"
  by (simp add: reassemble_def split_by_lines_def segments_from_emitted)

lemma emitted_fixed_iff:
  "(if list_all py_isspace l then [] else py_rstrip [CR] l) = l
     \<longleftrightarrow> (l = [] \<or> (\<not> list_all py_isspace l \<and> last l \<noteq> CR))"
  by (cases "l = []") (auto simp: py_rstrip_id_iff)

text \<open>
  Claim C1, as amended. \<open>split_by_lines\<close> keeps one segment per line, but it removes
  trailing carriage returns from every line and turns a line of whitespace into an
  empty-line segment with empty content. Reassembling the segments therefore gives the
  text with its lines normalised in that way, and it gives back the text itself exactly
  when every line is empty or has a character that is not whitespace and does not end
  in a carriage return.
\<close>

theorem C1_line_roundtrip:
  "reassemble (split_by_lines T)
     = py_join [NL] (map (\<lambda>l. if list_all py_isspace l then [] else py_rstrip [CR] l) (split_on NL T))
   \<and> (reassemble (split_by_lines T) = T
        \<longleftrightarrow> (\<forall>l \<in> set (split_on NL T). l = [] \<or> (\<not> list_all py_isspace l \<and> last l \<noteq> CR)))"
proof -
  let ?f = "\<lambda>l. if list_all py_isspace l then [] else py_rstrip [CR] l"
  let ?ls = "split_on NL T"
  have r: "reassemble (split_by_lines T) = py_join [NL] (map ?f ?ls)"
    by (rule reassemble_split_by_lines)
  have nosep: "\<forall>x\<in>set (map ?f ?ls). NL \<notin> set x"
    using split_on_no_sep [of _ NL T] py_rstrip_subset [of "[CR]"] by fastforce
  have "py_join [NL] (map ?f ?ls) = T \<longleftrightarrow> map ?f ?ls = ?ls"
  proof
    assume "py_join [NL] (map ?f ?ls) = T"
    then have "split_on NL (py_join [NL] (map ?f ?ls)) = ?ls" by simp
    moreover have "split_on NL (py_join [NL] (map ?f ?ls)) = map ?f ?ls"
      using nosep split_on_not_Nil [of NL T] by (intro split_on_join) auto
    ultimately show "map ?f ?ls = ?ls" by simp
  next
    assume "map ?f ?ls = ?ls"
    then show "py_join [NL] (map ?f ?ls) = T" by (simp add: join_split_on)
  qed
  also have "\<dots> \<longleftrightarrow> (\<forall>l\<in>set ?ls. ?f l = l)"
    using map_eq_conv [of ?f ?ls "\<lambda>l. l"] by simp
  also have "\<dots> \<longleftrightarrow> (\<forall>l\<in>set ?ls. l = [] \<or> (\<not> list_all py_isspace l \<and> last l \<noteq> CR))"
    using emitted_fixed_iff by simp
  finally show ?thesis using r by simp
qed

text \<open>The three lines \<open>ab\<close>, the empty line and \<open>c\<close> meet the condition, and
  the text is reconstructed.\<close>

theorem C1_line_roundtrip_witness:
  "reassemble (split_by_lines [97, 98, 10, 10, 99]) = [97, 98, 10, 10, 99]"
proof -
  have "\<forall>l \<in> set (split_on NL [97, 98, 10, 10, 99]).
          l = [] \<or> (\<not> list_all py_isspace l \<and> last l \<noteq> CR)"
    by (simp add: NL_def CR_def py_isspace_def)
  with C1_line_roundtrip [of "[97, 98, 10, 10, 99]"] show ?thesis by blast
qed

text \<open>The three lines \<open>a\<close>, one space and \<open>b\<close> come back as \<open>a\<close>, the
  empty line and \<open>b\<close>: the round trip of claim C1 is not byte-exact.\<close>

theorem C1_counterexample:
  "reassemble (split_by_lines [97, 10, 32, 10, 98]) = [97, 10, 10, 98]
   \<and> reassemble (split_by_lines [97, 10, 32, 10, 98]) \<noteq> [97, 10, 32, 10, 98]"
  by (simp add: reassemble_split_by_lines NL_def CR_def py_isspace_def py_rstrip_def)

section \<open>The character classifier\<close>


lemma find_first_index:
  "x \<in> set xs \<Longrightarrow> P x \<Longrightarrow>
     \<exists>i < length xs. P (xs ! i) \<and> (\<forall>j < i. \<not> P (xs ! j)) \<and> find P xs = Some (xs ! i)"
proof (induction xs)
  case Nil
  then show ?case by simp
next
  case (Cons y ys)
  show ?case
  proof (cases "P y")
    case True
    then have "P ((y # ys) ! 0) \<and> (\<forall>j < 0. \<not> P ((y # ys) ! j)) \<and> find P (y # ys) = Some ((y # ys) ! 0)"
      by simp
    then show ?thesis by blast
  next
    case False
    with Cons.prems have "x \<in> set ys" by auto
    from Cons.IH [OF this Cons.prems(2)] obtain i where
      i: "i < length ys" "P (ys ! i)" "\<forall>j < i. \<not> P (ys ! j)" "find P ys = Some (ys ! i)"
      by blast
    have "\<forall>j < Suc i. \<not> P ((y # ys) ! j)"
    proof (intro allI impI)
      fix j assume "j < Suc i"
      then show "\<not> P ((y # ys) ! j)" using False i(3) by (cases j) auto
    qed
    moreover have "Suc i < length (y # ys)" using i(1) by simp
    moreover have "P ((y # ys) ! Suc i)" using i(2) by simp
    moreover have "find P (y # ys) = Some ((y # ys) ! Suc i)" using False i(4) by simp
    ultimately show ?thesis by blast
  qed
qed



text \<open>
  Claim C8, as amended. The alias loop of \<open>detect_character_from_text\<close> runs first and
  returns at the first alias of \<open>name_patterns\<close> that occurs in the text. So a text that
  holds any alias is classified with confidence exactly 1, whatever the profiles, system
  markers, speech patterns or keywords; the label is the one of the first alias, in the
  order of declaration, that occurs in the text. It is the label of the alias one looked
  for whenever every alias that occurs in the text carries that label.
\<close>

theorem C8_alias_first_match:
  assumes "(alias, label) \<in> set name_patterns" and "py_in alias text"
  shows "(\<exists>i < length name_patterns.
           py_in (fst (name_patterns ! i)) text \<and>
           (\<forall>j < i. \<not> py_in (fst (name_patterns ! j)) text) \<and>
           detect_character_from_text profiles text = (snd (name_patterns ! i), 1))
       \<and> ((\<forall>(a, l) \<in> set name_patterns. py_in a text \<longrightarrow> l = label)
            \<longrightarrow> detect_character_from_text profiles text = (label, 1))"
proof -
  define P where "P = (\<lambda>p :: ustr \<times> CharacterType. py_in (fst p) text)"
  have Pc: "(\<lambda>(alias, char_type). py_in alias text) = P"
    by (simp add: P_def case_prod_unfold)
  from assms have "P (alias, label)" by (simp add: P_def)
  from find_first_index [of "(alias, label)" name_patterns P, OF assms(1) this] obtain i where
    i: "i < length name_patterns" "P (name_patterns ! i)"
       "\<forall>j < i. \<not> P (name_patterns ! j)" "find P name_patterns = Some (name_patterns ! i)"
    by blast
  have d: "detect_character_from_text profiles text = (snd (name_patterns ! i), 1)"
    unfolding detect_character_from_text_def Pc i(4) by (simp add: case_prod_unfold)
  have 1: "\<exists>i < length name_patterns.
           py_in (fst (name_patterns ! i)) text \<and>
           (\<forall>j < i. \<not> py_in (fst (name_patterns ! j)) text) \<and>
           detect_character_from_text profiles text = (snd (name_patterns ! i), 1)"
    using i(1-3) d unfolding P_def by blast
  have 2: "(\<forall>(a, l) \<in> set name_patterns. py_in a text \<longrightarrow> l = label)
            \<longrightarrow> detect_character_from_text profiles text = (label, 1)"
  proof
    assume all: "\<forall>(a, l) \<in> set name_patterns. py_in a text \<longrightarrow> l = label"
    have "name_patterns ! i \<in> set name_patterns" using i(1) by simp
    with all have "py_in (fst (name_patterns ! i)) text \<longrightarrow> snd (name_patterns ! i) = label"
      by (auto simp: case_prod_unfold)
    with i(2) have "snd (name_patterns ! i) = label" by (simp add: P_def)
    with d show "detect_character_from_text profiles text = (label, 1)" by simp
  qed
  from 1 2 show ?thesis by (rule conjI)
qed

text \<open>A text with a system marker and the alias \<open>Jiang Chen\<close>.\<close>

theorem C8_alias_first_match_witness:
  "detect_character_from_text default_profiles (ascii ''System: Jiang Chen'') = (JIANG_CHEN, 1)"
proof -
  have a: "(ascii ''Jiang Chen'', JIANG_CHEN) \<in> set name_patterns"
    by (simp add: name_patterns_def)
  have b: "py_in (ascii ''Jiang Chen'') (ascii ''System: Jiang Chen'')"
    by code_simp
  have c: "\<forall>(a, l) \<in> set name_patterns. py_in a (ascii ''System: Jiang Chen'') \<longrightarrow> l = JIANG_CHEN"
    by code_simp
  have "(\<forall>(a, l) \<in> set name_patterns. py_in a (ascii ''System: Jiang Chen'') \<longrightarrow> l = JIANG_CHEN)
          \<longrightarrow> detect_character_from_text default_profiles (ascii ''System: Jiang Chen'') = (JIANG_CHEN, 1)"
    using C8_alias_first_match [OF a b, of default_profiles] by (rule conjunct2)
  then show ?thesis using c by (rule mp)
qed



text \<open>The text \<open>Ye Qingcheng, Jiang Chen\<close> holds the alias \<open>Ye Qingcheng\<close>, and is
  classified as Jiang Chen: his aliases are declared first.\<close>

theorem C8_counterexample:
  "(ascii ''Ye Qingcheng'', YE_QINGCHENG) \<in> set name_patterns
   \<and> py_in (ascii ''Ye Qingcheng'') (ascii ''Ye Qingcheng, Jiang Chen'')
   \<and> detect_character_from_text default_profiles (ascii ''Ye Qingcheng, Jiang Chen'') = (JIANG_CHEN, 1)"
proof (intro conjI)
  show "(ascii ''Ye Qingcheng'', YE_QINGCHENG) \<in> set name_patterns"
    by code_simp
  show "py_in (ascii ''Ye Qingcheng'') (ascii ''Ye Qingcheng, Jiang Chen'')"
    by code_simp
  show "detect_character_from_text default_profiles (ascii ''Ye Qingcheng, Jiang Chen'') = (JIANG_CHEN, 1)"
    by code_simp
qed





text \<open>
  Claim C9. \<open>_analyze_speech_style\<close> returns \<open>best_score\<close> as it is: nothing caps it
  at 1, while the keyword step beside it caps its confidence with \<open>min(0.8, ...)\<close>. On
  the default profiles the text below scores 3 * 0.2 + 3 * 0.3 = 1.5 for the first
  profile, and the classifier returns the confidence 1.5.
\<close>

theorem C9_speech_style_uncapped:
  "analyze_speech_style default_profiles speech_style_text = Some (JIANG_CHEN, 3 / 2)
   \<and> detect_character_from_text default_profiles speech_style_text = (JIANG_CHEN, 3 / 2)
   \<and> snd (detect_character_from_text default_profiles speech_style_text) > 1"
proof (intro conjI)
  show "analyze_speech_style default_profiles speech_style_text = Some (JIANG_CHEN, 3 / 2)"
    by code_simp
  show d: "detect_character_from_text default_profiles speech_style_text = (JIANG_CHEN, 3 / 2)"
    by code_simp
  show "snd (detect_character_from_text default_profiles speech_style_text) > 1"
    unfolding d by simp
qed

end
